theory Spec2Isabelle
  imports Main
begin

section \<open>JavaScript values\<close>

text \<open>
  The handlers take \<open>args: any\<close> and read the provider's responses without checking
  their shape, so every value they touch is a plain JSON-like JavaScript value.
  \<^item> \<open>JNum n\<close> is the integer-valued number \<open>n\<close> (counts such as \<open>maxResults\<close>), for
    \<open>n\<close> that a double holds exactly and that JavaScript prints with all its digits
    (magnitude below \<open>10^21\<close>); larger integers, fractions, \<open>NaN\<close> and the infinities are
    not modelled.
  \<^item> A string is the list of its UTF-8 bytes, which is what \<open>Buffer.from\<close> encodes.
  \<^item> \<open>JObj ps\<close> lists the own properties in the engine's enumeration order; the keys
    of an object are distinct, and a lookup takes the first entry.
\<close>

datatype jsval =
    JUndefined
  | JNull
  | JBool bool
  | JNum int
  | JStr string
  | JArr "jsval list"
  | JObj "(string \<times> jsval) list"

text \<open>What is thrown inside a handler: a rejection of a provider call, or a
  \<open>TypeError\<close> of the engine. The handlers read only \<open>error.message\<close>. The texts of
  the engine's messages are those of V8.\<close>

datatype exn = ProviderError string | TypeError string

fun message_of :: "exn \<Rightarrow> string" where
  "message_of (ProviderError m) = m"
| "message_of (TypeError m) = m"

definition nullish :: "jsval \<Rightarrow> bool" where
  "nullish v = (v = JUndefined \<or> v = JNull)"

text \<open>\<open>Boolean(v)\<close>, the test of \<open>||\<close>, \<open>?:\<close>, \<open>if\<close> and \<open>filter(Boolean)\<close>.\<close>

fun truthy :: "jsval \<Rightarrow> bool" where
  "truthy JUndefined = False"
| "truthy JNull = False"
| "truthy (JBool b) = b"
| "truthy (JNum n) = (n \<noteq> 0)"
| "truthy (JStr s) = (s \<noteq> [])"
| "truthy (JArr xs) = True"
| "truthy (JObj ps) = True"

text \<open>\<open>a || b\<close>\<close>

definition orElse :: "jsval \<Rightarrow> jsval \<Rightarrow> jsval" where
  "orElse a b = (if truthy a then a else b)"

text \<open>Reading property \<open>k\<close> of a value that is neither \<open>undefined\<close> nor \<open>null\<close>. None
  of the property names the handlers read exists on a primitive or on an array.\<close>

fun getProp :: "jsval \<Rightarrow> string \<Rightarrow> jsval" where
  "getProp (JObj ps) k = (case map_of ps k of Some v \<Rightarrow> v | None \<Rightarrow> JUndefined)"
| "getProp v k = JUndefined"

text \<open>\<open>v?.k\<close>\<close>

definition optProp :: "jsval \<Rightarrow> string \<Rightarrow> jsval" where
  "optProp v k = (if nullish v then JUndefined else getProp v k)"

text \<open>\<open>v.k\<close>, which throws on \<open>undefined\<close> and \<open>null\<close>.\<close>

definition readProp :: "jsval \<Rightarrow> string \<Rightarrow> exn + jsval" where
  "readProp v k =
     (if v = JUndefined then
        Inl (TypeError (''Cannot read properties of undefined (reading '' @ [CHR 0x27] @ k @ [CHR 0x27] @ '')''))
      else if v = JNull then
        Inl (TypeError (''Cannot read properties of null (reading '' @ [CHR 0x27] @ k @ [CHR 0x27] @ '')''))
      else Inr (getProp v k))"

text \<open>\<open>const { k, ... } = args\<close>: the pattern throws on \<open>undefined\<close> and \<open>null\<close>, naming
  its first property \<open>k\<close>; otherwise each name is read with \<open>getProp\<close>.\<close>

definition destructure :: "jsval \<Rightarrow> string \<Rightarrow> exn + jsval" where
  "destructure args k =
     (if args = JUndefined then
        Inl (TypeError (''Cannot destructure property '' @ [CHR 0x27] @ k @ [CHR 0x27] @
               '' of '' @ [CHR 0x27] @ ''args'' @ [CHR 0x27] @ '' as it is undefined.''))
      else if args = JNull then
        Inl (TypeError (''Cannot destructure property '' @ [CHR 0x27] @ k @ [CHR 0x27] @
               '' of '' @ [CHR 0x27] @ ''args'' @ [CHR 0x27] @ '' as it is null.''))
      else Inr args)"

text \<open>A destructuring default \<open>{ k = d }\<close> applies to \<open>undefined\<close> only.\<close>

definition withDefault :: "jsval \<Rightarrow> jsval \<Rightarrow> jsval" where
  "withDefault v d = (if v = JUndefined then d else v)"

subsection \<open>Conversion to strings\<close>

definition digitChar :: "nat \<Rightarrow> char" where
  "digitChar n = ''0123456789abcdef'' ! n"

function showNat :: "nat \<Rightarrow> string" where
  "showNat n = (if n < 10 then [digitChar n] else showNat (n div 10) @ [digitChar (n mod 10)])"
  by pat_completeness auto
termination
  by (relation "measure id") auto

text \<open>\<open>Number::toString\<close> on the integers of the model, in decimal.\<close>

definition showInt :: "int \<Rightarrow> string" where
  "showInt i = (if i < 0 then ''-'' @ showNat (nat (- i)) else showNat (nat i))"

fun join :: "string \<Rightarrow> string list \<Rightarrow> string" where
  "join sep [] = []"
| "join sep [x] = x"
| "join sep (x # y # ys) = x @ sep @ join sep (y # ys)"

text \<open>\<open>ToString\<close>, as a template literal \<open>`${v}`\<close> applies it; an array is its elements
  joined by a comma, \<open>undefined\<close> and \<open>null\<close> elements giving the empty string.\<close>

fun toString :: "jsval \<Rightarrow> string"
  and elementStrings :: "jsval list \<Rightarrow> string list" where
  "toString JUndefined = ''undefined''"
| "toString JNull = ''null''"
| "toString (JBool b) = (if b then ''true'' else ''false'')"
| "toString (JNum n) = showInt n"
| "toString (JStr s) = s"
| "toString (JArr xs) = join '','' (elementStrings xs)"
| "toString (JObj ps) = ''[object Object]''"
| "elementStrings [] = []"
| "elementStrings (x # xs) = (if nullish x then [] else toString x) # elementStrings xs"

text \<open>\<open>xs.join(sep)\<close>\<close>

definition joinArray :: "string \<Rightarrow> jsval list \<Rightarrow> string" where
  "joinArray sep xs = join sep (elementStrings xs)"

subsection \<open>\<open>JSON.stringify(value, null, 2)\<close>\<close>

definition newline :: string where
  "newline = [CHR 0x0A]"

definition gap :: string where
  "gap = ''  ''"

definition quoteChar :: "char \<Rightarrow> string" where
  "quoteChar c =
     (if c = CHR 0x22 then [CHR 0x5C, CHR 0x22]
      else if c = CHR 0x5C then [CHR 0x5C, CHR 0x5C]
      else if c = CHR 0x08 then [CHR 0x5C, CHR ''b'']
      else if c = CHR 0x0C then [CHR 0x5C, CHR ''f'']
      else if c = CHR 0x0A then [CHR 0x5C, CHR ''n'']
      else if c = CHR 0x0D then [CHR 0x5C, CHR ''r'']
      else if c = CHR 0x09 then [CHR 0x5C, CHR ''t'']
      else if (of_char c :: nat) < 32 then
        [CHR 0x5C, CHR ''u'', CHR ''0'', CHR ''0'',
         digitChar ((of_char c :: nat) div 16), digitChar ((of_char c :: nat) mod 16)]
      else [c])"

definition quoteJSON :: "string \<Rightarrow> string" where
  "quoteJSON s = [CHR 0x22] @ concat (map quoteChar s) @ [CHR 0x22]"

text \<open>The brackets around the serialised parts of an array or an object; \<open>ind\<close> is the
  indentation of the enclosing line.\<close>

definition bracketed :: "string \<Rightarrow> string \<Rightarrow> string \<Rightarrow> string list \<Rightarrow> string" where
  "bracketed opening closing ind parts =
     (if parts = [] then opening @ closing
      else opening @ newline @ ind @ gap @
           join ('','' @ newline @ ind @ gap) parts @ newline @ ind @ closing)"

text \<open>\<open>SerializeJSONProperty\<close>: \<open>None\<close> is \<open>undefined\<close>. An \<open>undefined\<close> element
  of an array is written \<open>null\<close>, an \<open>undefined\<close> property of an object is left out.\<close>

fun serializeProperty :: "string \<Rightarrow> jsval \<Rightarrow> string option"
  and serializeElements :: "string \<Rightarrow> jsval list \<Rightarrow> string list"
  and serializeMembers :: "string \<Rightarrow> (string \<times> jsval) list \<Rightarrow> string list" where
  "serializeProperty ind JUndefined = None"
| "serializeProperty ind JNull = Some ''null''"
| "serializeProperty ind (JBool b) = Some (if b then ''true'' else ''false'')"
| "serializeProperty ind (JNum n) = Some (showInt n)"
| "serializeProperty ind (JStr s) = Some (quoteJSON s)"
| "serializeProperty ind (JArr xs) =
     Some (bracketed ''['' '']'' ind (serializeElements (ind @ gap) xs))"
| "serializeProperty ind (JObj ps) =
     Some (bracketed ''{'' ''}'' ind (serializeMembers (ind @ gap) ps))"
| "serializeElements ind [] = []"
| "serializeElements ind (x # xs) =
     (case serializeProperty ind x of None \<Rightarrow> ''null'' | Some s \<Rightarrow> s) # serializeElements ind xs"
| "serializeMembers ind [] = []"
| "serializeMembers ind ((k, v) # ps) =
     (case serializeProperty ind v of
        None \<Rightarrow> serializeMembers ind ps
      | Some s \<Rightarrow> (quoteJSON k @ '': '' @ s) # serializeMembers ind ps)"

definition JSON_stringify :: "jsval \<Rightarrow> jsval" where
  "JSON_stringify v = (case serializeProperty [] v of None \<Rightarrow> JUndefined | Some s \<Rightarrow> JStr s)"

subsection \<open>Methods of arrays\<close>

text \<open>The receiver \<open>v\<close> of a call \<open>v.map(...)\<close> or \<open>v.find(...)\<close>: an array has the
  method and the call runs over its elements; reading the method from \<open>undefined\<close> or
  \<open>null\<close> throws; on any other value the property is no function, and calling it throws.
  \<open>expr\<close> is the source text of the callee, which V8 prints.\<close>

definition receiver :: "jsval \<Rightarrow> string \<Rightarrow> string \<Rightarrow> exn + jsval list" where
  "receiver v expr method =
     (case v of
        JArr xs \<Rightarrow> Inr xs
      | _ \<Rightarrow>
          (case readProp v method of
             Inl e \<Rightarrow> Inl e
           | Inr _ \<Rightarrow> Inl (TypeError (expr @ '' is not a function''))))"

text \<open>\<open>xs.map(f)\<close> for a callback that may throw: the first throw ends the loop.\<close>

fun mapThrowing :: "('a \<Rightarrow> exn + 'b) \<Rightarrow> 'a list \<Rightarrow> exn + 'b list" where
  "mapThrowing f [] = Inr []"
| "mapThrowing f (x # xs) =
     (case f x of
        Inl e \<Rightarrow> Inl e
      | Inr y \<Rightarrow> (case mapThrowing f xs of Inl e \<Rightarrow> Inl e | Inr ys \<Rightarrow> Inr (y # ys)))"

text \<open>\<open>hs.find((h) => h.name === n)\<close>: the first element whose \<open>name\<close> is the string
  \<open>n\<close>, \<open>undefined\<close> when there is none; reading \<open>name\<close> of a \<open>null\<close> element throws.\<close>

fun findByName :: "string \<Rightarrow> jsval list \<Rightarrow> exn + jsval" where
  "findByName n [] = Inr JUndefined"
| "findByName n (h # hs) =
     (case readProp h ''name'' of
        Inl e \<Rightarrow> Inl e
      | Inr v \<Rightarrow> if v = JStr n then Inr h else findByName n hs)"

section \<open>The provider\<close>

text \<open>
  The Gmail and Calendar clients are outside the program. A call is the method and the
  parameter object it is given. Within one invocation of a handler the calls are
  numbered: \<open>0\<close> is the handler's first call, \<open>Suc i\<close> the detail fetch for the message
  at index \<open>i\<close> of a listing. \<open>respond p k c\<close> is how the promise of call \<open>k\<close> settles:
  rejected with an error, or fulfilled with a response whose \<open>data\<close> is the value
  given. \<open>settle p k\<close> is the rank of that moment among the settlements of the
  invocation. \<open>now p\<close> is \<open>new Date().toISOString()\<close> and \<open>timeZone p\<close> is
  \<open>Intl.DateTimeFormat().resolvedOptions().timeZone\<close>.
\<close>

datatype endpoint =
    Gmail_messages_list
  | Gmail_messages_get
  | Gmail_messages_send
  | Gmail_messages_modify
  | Calendar_events_list
  | Calendar_events_insert
  | Calendar_events_patch
  | Calendar_events_delete

type_synonym call = "endpoint \<times> jsval"

record provider =
  respond :: "nat \<Rightarrow> call \<Rightarrow> exn + jsval"
  settle :: "nat \<Rightarrow> nat"
  now :: string
  timeZone :: string

subsection \<open>\<open>Promise.all\<close>\<close>

text \<open>Each promise is given with the rank of its settlement. \<open>Promise.all\<close> rejects
  with the reason of the rejection that settles first (the lower index first among equal
  ranks), and otherwise fulfils with the values in the order of the promises.\<close>

fun firstRejection :: "(nat \<times> (exn + 'a)) list \<Rightarrow> (nat \<times> exn) option" where
  "firstRejection [] = None"
| "firstRejection ((t, Inr v) # rs) = firstRejection rs"
| "firstRejection ((t, Inl e) # rs) =
     (case firstRejection rs of
        None \<Rightarrow> Some (t, e)
      | Some (t', e') \<Rightarrow> if t' < t then Some (t', e') else Some (t, e))"

fun fulfilled :: "(nat \<times> (exn + 'a)) list \<Rightarrow> 'a list" where
  "fulfilled [] = []"
| "fulfilled ((t, Inr v) # rs) = v # fulfilled rs"
| "fulfilled ((t, Inl e) # rs) = fulfilled rs"

definition Promise_all :: "(nat \<times> (exn + 'a)) list \<Rightarrow> exn + 'a list" where
  "Promise_all rs =
     (case firstRejection rs of Some (t, e) \<Rightarrow> Inl e | None \<Rightarrow> Inr (fulfilled rs))"

section \<open>Tool results\<close>

text \<open>The two object literals the handlers return: \<open>{content: [{type: 'text', text}]}\<close>
  on success, and the same with \<open>isError: true\<close> and the text
  \<open>`<what>${error.message}`\<close> from the \<open>catch\<close> block.\<close>

definition textResult :: "jsval \<Rightarrow> jsval" where
  "textResult t = JObj [(''content'', JArr [JObj [(''type'', JStr ''text''), (''text'', t)]])]"

definition errorResult :: "string \<Rightarrow> exn \<Rightarrow> jsval" where
  "errorResult what error =
     JObj [(''content'', JArr [JObj [(''type'', JStr ''text''),
                                     (''text'', JStr (what @ message_of error))]]),
           (''isError'', JBool True)]"

section \<open>Gmail handlers\<close>

text \<open>\<open>headers?.find((h) => h.name === n)?.value || ''\<close>\<close>

definition headerValue :: "jsval \<Rightarrow> string \<Rightarrow> exn + jsval" where
  "headerValue headers n =
     (if nullish headers then Inr (JStr [])
      else case receiver headers ''headers?.find'' ''find'' of
             Inl e \<Rightarrow> Inl e
           | Inr hs \<Rightarrow>
               (case findByName n hs of
                  Inl e \<Rightarrow> Inl e
                | Inr h \<Rightarrow> Inr (orElse (optProp h ''value'') (JStr []))))"

text \<open>The callback of \<open>messages.map\<close> in \<open>handleListEmails\<close>, for the message at index
  \<open>i\<close>: the call it issues (none when \<open>msg.id\<close> throws, which rejects the promise at
  once, rank \<open>0\<close>) and how its promise settles.\<close>

definition listEmailsDetail :: "provider \<Rightarrow> nat \<Rightarrow> jsval \<Rightarrow> call list \<times> (nat \<times> (exn + jsval))" where
  "listEmailsDetail p i msg =
     (case readProp msg ''id'' of
        Inl error \<Rightarrow> ([], (0, Inl error))
      | Inr msgId \<Rightarrow>
          (let getCall = (Gmail_messages_get, JObj [(''userId'', JStr ''me''), (''id'', msgId)])
           in ([getCall],
               (Suc (settle p (Suc i)),
                case respond p (Suc i) getCall of
                  Inl error \<Rightarrow> Inl error
                | Inr data \<Rightarrow>
                    (case readProp data ''payload'' of
                       Inl error \<Rightarrow> Inl error
                     | Inr payload \<Rightarrow>
                         (let headers = optProp payload ''headers'' in
                          case headerValue headers ''Subject'' of
                            Inl error \<Rightarrow> Inl error
                          | Inr subject \<Rightarrow>
                              (case headerValue headers ''From'' of
                                 Inl error \<Rightarrow> Inl error
                               | Inr sender \<Rightarrow>
                                   (case headerValue headers ''Date'' of
                                      Inl error \<Rightarrow> Inl error
                                    | Inr date \<Rightarrow>
                                        Inr (JObj [(''id'', msgId), (''subject'', subject),
                                                   (''from'', sender), (''date'', date)])))))))))"

definition handleListEmails :: "provider \<Rightarrow> jsval \<Rightarrow> call list \<times> jsval" where
  "handleListEmails p args =
     (let maxResults = orElse (optProp args ''maxResults'') (JNum 10);
          query = orElse (optProp args ''query'') (JStr []);
          listCall = (Gmail_messages_list,
                      JObj [(''userId'', JStr ''me''), (''maxResults'', maxResults), (''q'', query)])
      in case respond p 0 listCall of
           Inl error \<Rightarrow> ([listCall], errorResult ''Error fetching emails: '' error)
         | Inr data \<Rightarrow>
             (case readProp data ''messages'' of
                Inl error \<Rightarrow> ([listCall], errorResult ''Error fetching emails: '' error)
              | Inr found \<Rightarrow>
                  (case receiver (orElse found (JArr [])) ''messages.map'' ''map'' of
                     Inl error \<Rightarrow> ([listCall], errorResult ''Error fetching emails: '' error)
                   | Inr messages \<Rightarrow>
                       (let fetches = map (\<lambda>(i, msg). listEmailsDetail p i msg) (enumerate 0 messages)
                        in (listCall # concat (map fst fetches),
                            case Promise_all (map snd fetches) of
                              Inl error \<Rightarrow> errorResult ''Error fetching emails: '' error
                            | Inr emailDetails \<Rightarrow>
                                textResult (JSON_stringify (JArr emailDetails)))))))"

text \<open>The callback of \<open>messages.map\<close> in \<open>handleSearchEmails\<close>.\<close>

definition searchEmailsDetail :: "provider \<Rightarrow> nat \<Rightarrow> jsval \<Rightarrow> call list \<times> (nat \<times> (exn + jsval))" where
  "searchEmailsDetail p i msg =
     (case readProp msg ''id'' of
        Inl error \<Rightarrow> ([], (0, Inl error))
      | Inr msgId \<Rightarrow>
          (let getCall = (Gmail_messages_get, JObj [(''userId'', JStr ''me''), (''id'', msgId)])
           in ([getCall],
               (Suc (settle p (Suc i)),
                case respond p (Suc i) getCall of
                  Inl error \<Rightarrow> Inl error
                | Inr data \<Rightarrow>
                    (case readProp data ''payload'' of
                       Inl error \<Rightarrow> Inl error
                     | Inr payload \<Rightarrow>
                         (let headers = optProp payload ''headers'' in
                          case headerValue headers ''Subject'' of
                            Inl error \<Rightarrow> Inl error
                          | Inr subject \<Rightarrow>
                              (case headerValue headers ''From'' of
                                 Inl error \<Rightarrow> Inl error
                               | Inr sender \<Rightarrow>
                                   (case headerValue headers ''Date'' of
                                      Inl error \<Rightarrow> Inl error
                                    | Inr date \<Rightarrow>
                                        Inr (JObj [(''id'', msgId), (''subject'', subject),
                                                   (''from'', sender), (''date'', date)])))))))))"

definition handleSearchEmails :: "provider \<Rightarrow> jsval \<Rightarrow> call list \<times> jsval" where
  "handleSearchEmails p args =
     (let maxResults = orElse (optProp args ''maxResults'') (JNum 10);
          query = orElse (optProp args ''query'') (JStr []);
          listCall = (Gmail_messages_list,
                      JObj [(''userId'', JStr ''me''), (''maxResults'', maxResults), (''q'', query)])
      in case respond p 0 listCall of
           Inl error \<Rightarrow> ([listCall], errorResult ''Error fetching emails: '' error)
         | Inr data \<Rightarrow>
             (case readProp data ''messages'' of
                Inl error \<Rightarrow> ([listCall], errorResult ''Error fetching emails: '' error)
              | Inr found \<Rightarrow>
                  (case receiver (orElse found (JArr [])) ''messages.map'' ''map'' of
                     Inl error \<Rightarrow> ([listCall], errorResult ''Error fetching emails: '' error)
                   | Inr messages \<Rightarrow>
                       (let fetches = map (\<lambda>(i, msg). searchEmailsDetail p i msg) (enumerate 0 messages)
                        in (listCall # concat (map fst fetches),
                            case Promise_all (map snd fetches) of
                              Inl error \<Rightarrow> errorResult ''Error fetching emails: '' error
                            | Inr emailDetails \<Rightarrow>
                                textResult (JSON_stringify (JArr emailDetails)))))))"

subsection \<open>Sending\<close>

text \<open>\<open>Buffer.from(message).toString('base64')\<close>: the bytes of the string, three at a
  time, as four characters of the standard alphabet, padded with \<open>=\<close>.\<close>

definition base64Char :: "nat \<Rightarrow> char" where
  "base64Char n = ''ABCDEFGHIJKLMNOPQRSTUVWXYZabcdefghijklmnopqrstuvwxyz0123456789+/'' ! n"

fun base64 :: "nat list \<Rightarrow> string" where
  "base64 [] = []"
| "base64 [a] = [base64Char (a div 4), base64Char (a mod 4 * 16), CHR ''='', CHR ''='']"
| "base64 [a, b] =
     [base64Char (a div 4), base64Char (a mod 4 * 16 + b div 16),
      base64Char (b mod 16 * 4), CHR ''='']"
| "base64 (a # b # c # bs) =
     [base64Char (a div 4), base64Char (a mod 4 * 16 + b div 16),
      base64Char (b mod 16 * 4 + c div 64), base64Char (c mod 64)] @ base64 bs"

text \<open>\<open>s.replace(/=+$/, '')\<close>\<close>

definition stripTrailingEquals :: "string \<Rightarrow> string" where
  "stripTrailingEquals s = rev (dropWhile (\<lambda>c. c = CHR ''='') (rev s))"

text \<open>The chain \<open>Buffer.from(message).toString('base64').replace(/\+/g, '-')
  .replace(/\//g, '_').replace(/=+$/, '')\<close>.\<close>

definition encodeMessage :: "string \<Rightarrow> string" where
  "encodeMessage message =
     stripTrailingEquals
       (map (\<lambda>c. if c = CHR ''/'' then CHR ''_'' else c)
          (map (\<lambda>c. if c = CHR ''+'' then CHR ''-'' else c)
             (base64 (map of_char message))))"

text \<open>The array of lines of \<open>handleSendEmail\<close>, \<open>.filter(Boolean).join('\r\n')\<close>;
  \<open>args\<close> is the destructured value.\<close>

definition sendEmailMessage :: "jsval \<Rightarrow> string" where
  "sendEmailMessage args =
     (let to = getProp args ''to'';
          subject = getProp args ''subject'';
          body = getProp args ''body'';
          cc = getProp args ''cc'';
          bcc = getProp args ''bcc''
      in joinArray [CHR 0x0D, CHR 0x0A]
           (filter truthy
              [JStr ''Content-Type: text/html; charset=utf-8'',
               JStr ''MIME-Version: 1.0'',
               JStr (''To: '' @ toString to),
               if truthy cc then JStr (''Cc: '' @ toString cc) else JStr [],
               if truthy bcc then JStr (''Bcc: '' @ toString bcc) else JStr [],
               JStr (''Subject: '' @ toString subject),
               JStr [],
               body]))"

definition handleSendEmail :: "provider \<Rightarrow> jsval \<Rightarrow> call list \<times> jsval" where
  "handleSendEmail p args =
     (case destructure args ''to'' of
        Inl error \<Rightarrow> ([], errorResult ''Error sending email: '' error)
      | Inr a \<Rightarrow>
          (let message = sendEmailMessage a;
               encodedMessage = encodeMessage message;
               sendCall = (Gmail_messages_send,
                           JObj [(''userId'', JStr ''me''),
                                 (''requestBody'', JObj [(''raw'', JStr encodedMessage)])])
           in ([sendCall],
               case respond p 0 sendCall of
                 Inl error \<Rightarrow> errorResult ''Error sending email: '' error
               | Inr data \<Rightarrow>
                   (case readProp data ''id'' of
                      Inl error \<Rightarrow> errorResult ''Error sending email: '' error
                    | Inr msgId \<Rightarrow>
                        textResult (JStr (''Email sent successfully. Message ID: '' @ toString msgId))))))"

subsection \<open>Labels\<close>

definition handleModifyEmail :: "provider \<Rightarrow> jsval \<Rightarrow> call list \<times> jsval" where
  "handleModifyEmail p args =
     (case destructure args ''id'' of
        Inl error \<Rightarrow> ([], errorResult ''Error modifying email: '' error)
      | Inr a \<Rightarrow>
          (let addLabels = withDefault (getProp a ''addLabels'') (JArr []);
               removeLabels = withDefault (getProp a ''removeLabels'') (JArr []);
               modifyCall = (Gmail_messages_modify,
                             JObj [(''userId'', JStr ''me''),
                                   (''id'', getProp a ''id''),
                                   (''requestBody'', JObj [(''addLabelIds'', addLabels),
                                                           (''removeLabelIds'', removeLabels)])])
           in ([modifyCall],
               case respond p 0 modifyCall of
                 Inl error \<Rightarrow> errorResult ''Error modifying email: '' error
               | Inr data \<Rightarrow>
                   (case readProp data ''id'' of
                      Inl error \<Rightarrow> errorResult ''Error modifying email: '' error
                    | Inr msgId \<Rightarrow>
                        textResult (JStr (''Email modified successfully. Updated labels for message ID: ''
                                          @ toString msgId))))))"

section \<open>Calendar handlers\<close>

definition handleCreateEvent :: "provider \<Rightarrow> jsval \<Rightarrow> call list \<times> jsval" where
  "handleCreateEvent p args =
     (case destructure args ''summary'' of
        Inl error \<Rightarrow> ([], errorResult ''Error creating event: '' error)
      | Inr a \<Rightarrow>
          (case receiver (withDefault (getProp a ''attendees'') (JArr [])) ''attendees.map'' ''map'' of
             Inl error \<Rightarrow> ([], errorResult ''Error creating event: '' error)
           | Inr attendees \<Rightarrow>
               (let event =
                      JObj [(''summary'', getProp a ''summary''),
                            (''location'', getProp a ''location''),
                            (''description'', getProp a ''description''),
                            (''start'', JObj [(''dateTime'', getProp a ''start''),
                                              (''timeZone'', JStr (timeZone p))]),
                            (''end'', JObj [(''dateTime'', getProp a ''end''),
                                            (''timeZone'', JStr (timeZone p))]),
                            (''attendees'', JArr (map (\<lambda>email. JObj [(''email'', email)]) attendees))];
                    insertCall = (Calendar_events_insert,
                                  JObj [(''calendarId'', JStr ''primary''), (''requestBody'', event)])
                in ([insertCall],
                    case respond p 0 insertCall of
                      Inl error \<Rightarrow> errorResult ''Error creating event: '' error
                    | Inr data \<Rightarrow>
                        (case readProp data ''id'' of
                           Inl error \<Rightarrow> errorResult ''Error creating event: '' error
                         | Inr eventId \<Rightarrow>
                             textResult (JStr (''Event created successfully. Event ID: ''
                                               @ toString eventId)))))))"

text \<open>\<open>event.k = v\<close>: the property is replaced where it stands, or added last.\<close>

fun setProp :: "(string \<times> jsval) list \<Rightarrow> string \<Rightarrow> jsval \<Rightarrow> (string \<times> jsval) list" where
  "setProp [] k v = [(k, v)]"
| "setProp ((k', v') # ps) k v = (if k' = k then (k, v) # ps else (k', v') # setProp ps k v)"

text \<open>The statements of \<open>handleUpdateEvent\<close> that fill \<open>event\<close>, from \<open>const event: any = {}\<close>
  to the last \<open>if\<close>; \<open>a\<close> is the destructured value.\<close>

definition updateEventBody :: "provider \<Rightarrow> jsval \<Rightarrow> exn + (string \<times> jsval) list" where
  "updateEventBody p a =
     (let summary = getProp a ''summary'';
          location = getProp a ''location'';
          description = getProp a ''description'';
          start = getProp a ''start'';
          end = getProp a ''end'';
          attendees = getProp a ''attendees'';
          event0 = [];
          event1 = (if truthy summary then setProp event0 ''summary'' summary else event0);
          event2 = (if truthy location then setProp event1 ''location'' location else event1);
          event3 = (if truthy description then setProp event2 ''description'' description else event2);
          event4 = (if truthy start
                    then setProp event3 ''start''
                           (JObj [(''dateTime'', start), (''timeZone'', JStr (timeZone p))])
                    else event3);
          event5 = (if truthy end
                    then setProp event4 ''end''
                           (JObj [(''dateTime'', end), (''timeZone'', JStr (timeZone p))])
                    else event4)
      in if truthy attendees
         then (case receiver attendees ''attendees.map'' ''map'' of
                 Inl error \<Rightarrow> Inl error
               | Inr emails \<Rightarrow>
                   Inr (setProp event5 ''attendees''
                          (JArr (map (\<lambda>email. JObj [(''email'', email)]) emails))))
         else Inr event5)"

definition handleUpdateEvent :: "provider \<Rightarrow> jsval \<Rightarrow> call list \<times> jsval" where
  "handleUpdateEvent p args =
     (case destructure args ''eventId'' of
        Inl error \<Rightarrow> ([], errorResult ''Error updating event: '' error)
      | Inr a \<Rightarrow>
          (case updateEventBody p a of
             Inl error \<Rightarrow> ([], errorResult ''Error updating event: '' error)
           | Inr event \<Rightarrow>
               (let patchCall = (Calendar_events_patch,
                                 JObj [(''calendarId'', JStr ''primary''),
                                       (''eventId'', getProp a ''eventId''),
                                       (''requestBody'', JObj event)])
                in ([patchCall],
                    case respond p 0 patchCall of
                      Inl error \<Rightarrow> errorResult ''Error updating event: '' error
                    | Inr data \<Rightarrow>
                        (case readProp data ''id'' of
                           Inl error \<Rightarrow> errorResult ''Error updating event: '' error
                         | Inr eventId \<Rightarrow>
                             textResult (JStr (''Event updated successfully. Event ID: ''
                                               @ toString eventId)))))))"

definition handleDeleteEvent :: "provider \<Rightarrow> jsval \<Rightarrow> call list \<times> jsval" where
  "handleDeleteEvent p args =
     (case destructure args ''eventId'' of
        Inl error \<Rightarrow> ([], errorResult ''Error deleting event: '' error)
      | Inr a \<Rightarrow>
          (let eventId = getProp a ''eventId'';
               deleteCall = (Calendar_events_delete,
                             JObj [(''calendarId'', JStr ''primary''), (''eventId'', eventId)])
           in ([deleteCall],
               case respond p 0 deleteCall of
                 Inl error \<Rightarrow> errorResult ''Error deleting event: '' error
               | Inr data \<Rightarrow>
                   textResult (JStr (''Event deleted successfully. Event ID: '' @ toString eventId)))))"

text \<open>The callback of \<open>items?.map\<close> in \<open>handleListEvents\<close>.\<close>

definition listEventsItem :: "jsval \<Rightarrow> exn + jsval" where
  "listEventsItem event =
     (case readProp event ''id'' of
        Inl error \<Rightarrow> Inl error
      | Inr eventId \<Rightarrow>
          Inr (JObj [(''id'', eventId),
                     (''summary'', getProp event ''summary''),
                     (''start'', getProp event ''start''),
                     (''end'', getProp event ''end''),
                     (''location'', getProp event ''location'')]))"

definition handleListEvents :: "provider \<Rightarrow> jsval \<Rightarrow> call list \<times> jsval" where
  "handleListEvents p args =
     (let maxResults = orElse (optProp args ''maxResults'') (JNum 10);
          timeMin = orElse (optProp args ''timeMin'') (JStr (now p));
          timeMax = optProp args ''timeMax'';
          listCall = (Calendar_events_list,
                      JObj [(''calendarId'', JStr ''primary''),
                            (''timeMin'', timeMin),
                            (''timeMax'', timeMax),
                            (''maxResults'', maxResults),
                            (''singleEvents'', JBool True),
                            (''orderBy'', JStr ''startTime'')])
      in ([listCall],
          case respond p 0 listCall of
            Inl error \<Rightarrow> errorResult ''Error fetching calendar events: '' error
          | Inr data \<Rightarrow>
              (case readProp data ''items'' of
                 Inl error \<Rightarrow> errorResult ''Error fetching calendar events: '' error
               | Inr items \<Rightarrow>
                   (if nullish items then textResult (JSON_stringify JUndefined)
                    else case receiver items ''response.data.items?.map'' ''map'' of
                           Inl error \<Rightarrow> errorResult ''Error fetching calendar events: '' error
                         | Inr found \<Rightarrow>
                             (case mapThrowing listEventsItem found of
                                Inl error \<Rightarrow> errorResult ''Error fetching calendar events: '' error
                              | Inr events \<Rightarrow> textResult (JSON_stringify (JArr events)))))))"

section \<open>The tool catalog and the dispatcher\<close>

text \<open>The handler registered for \<open>ListToolsRequestSchema\<close>: \<open>async () => ({tools: [...]})\<close>.
  It reads nothing of the request it is called with.\<close>

definition listTools :: "jsval \<Rightarrow> jsval" where
  "listTools request =
     JObj [(''tools'', JArr [
       JObj [(''name'', JStr ''list_emails''),
             (''description'', JStr ''List recent emails from Gmail inbox''),
             (''inputSchema'', JObj [
                (''type'', JStr ''object''),
                (''properties'', JObj [
                   (''maxResults'', JObj [
                      (''type'', JStr ''number''),
                      (''description'', JStr ''Maximum number of emails to return (default: 10)'')]),
                   (''query'', JObj [
                      (''type'', JStr ''string''),
                      (''description'', JStr ''Search query to filter emails'')])])])],
       JObj [(''name'', JStr ''search_emails''),
             (''description'', JStr ''Search emails with advanced query''),
             (''inputSchema'', JObj [
                (''type'', JStr ''object''),
                (''properties'', JObj [
                   (''query'', JObj [
                      (''type'', JStr ''string''),
                      (''description'', JStr (''Gmail search query (e.g., '' @ [CHR 0x22] @
                         ''from:example@gmail.com has:attachment'' @ [CHR 0x22] @ '')'')),
                      (''required'', JBool True)]),
                   (''maxResults'', JObj [
                      (''type'', JStr ''number''),
                      (''description'', JStr ''Maximum number of emails to return (default: 10)'')])]),
                (''required'', JArr [JStr ''query''])])],
       JObj [(''name'', JStr ''send_email''),
             (''description'', JStr ''Send a new email''),
             (''inputSchema'', JObj [
                (''type'', JStr ''object''),
                (''properties'', JObj [
                   (''to'', JObj [
                      (''type'', JStr ''string''),
                      (''description'', JStr ''Recipient email address'')]),
                   (''subject'', JObj [
                      (''type'', JStr ''string''),
                      (''description'', JStr ''Email subject'')]),
                   (''body'', JObj [
                      (''type'', JStr ''string''),
                      (''description'', JStr ''Email body (can include HTML)'')]),
                   (''cc'', JObj [
                      (''type'', JStr ''string''),
                      (''description'', JStr ''CC recipients (comma-separated)'')]),
                   (''bcc'', JObj [
                      (''type'', JStr ''string''),
                      (''description'', JStr ''BCC recipients (comma-separated)'')])]),
                (''required'', JArr [JStr ''to'', JStr ''subject'', JStr ''body''])])],
       JObj [(''name'', JStr ''modify_email''),
             (''description'', JStr ''Modify email labels (archive, trash, mark read/unread)''),
             (''inputSchema'', JObj [
                (''type'', JStr ''object''),
                (''properties'', JObj [
                   (''id'', JObj [
                      (''type'', JStr ''string''),
                      (''description'', JStr ''Email ID'')]),
                   (''addLabels'', JObj [
                      (''type'', JStr ''array''),
                      (''items'', JObj [(''type'', JStr ''string'')]),
                      (''description'', JStr ''Labels to add'')]),
                   (''removeLabels'', JObj [
                      (''type'', JStr ''array''),
                      (''items'', JObj [(''type'', JStr ''string'')]),
                      (''description'', JStr ''Labels to remove'')])]),
                (''required'', JArr [JStr ''id''])])],
       JObj [(''name'', JStr ''list_events''),
             (''description'', JStr ''List upcoming calendar events''),
             (''inputSchema'', JObj [
                (''type'', JStr ''object''),
                (''properties'', JObj [
                   (''maxResults'', JObj [
                      (''type'', JStr ''number''),
                      (''description'', JStr ''Maximum number of events to return (default: 10)'')]),
                   (''timeMin'', JObj [
                      (''type'', JStr ''string''),
                      (''description'', JStr ''Start time in ISO format (default: now)'')]),
                   (''timeMax'', JObj [
                      (''type'', JStr ''string''),
                      (''description'', JStr ''End time in ISO format'')])])])],
       JObj [(''name'', JStr ''create_event''),
             (''description'', JStr ''Create a new calendar event''),
             (''inputSchema'', JObj [
                (''type'', JStr ''object''),
                (''properties'', JObj [
                   (''summary'', JObj [
                      (''type'', JStr ''string''),
                      (''description'', JStr ''Event title'')]),
                   (''location'', JObj [
                      (''type'', JStr ''string''),
                      (''description'', JStr ''Event location'')]),
                   (''description'', JObj [
                      (''type'', JStr ''string''),
                      (''description'', JStr ''Event description'')]),
                   (''start'', JObj [
                      (''type'', JStr ''string''),
                      (''description'', JStr ''Start time in ISO format'')]),
                   (''end'', JObj [
                      (''type'', JStr ''string''),
                      (''description'', JStr ''End time in ISO format'')]),
                   (''attendees'', JObj [
                      (''type'', JStr ''array''),
                      (''items'', JObj [(''type'', JStr ''string'')]),
                      (''description'', JStr ''List of attendee email addresses'')])]),
                (''required'', JArr [JStr ''summary'', JStr ''start'', JStr ''end''])])],
       JObj [(''name'', JStr ''update_event''),
             (''description'', JStr ''Update an existing calendar event''),
             (''inputSchema'', JObj [
                (''type'', JStr ''object''),
                (''properties'', JObj [
                   (''eventId'', JObj [
                      (''type'', JStr ''string''),
                      (''description'', JStr ''Event ID to update'')]),
                   (''summary'', JObj [
                      (''type'', JStr ''string''),
                      (''description'', JStr ''New event title'')]),
                   (''location'', JObj [
                      (''type'', JStr ''string''),
                      (''description'', JStr ''New event location'')]),
                   (''description'', JObj [
                      (''type'', JStr ''string''),
                      (''description'', JStr ''New event description'')]),
                   (''start'', JObj [
                      (''type'', JStr ''string''),
                      (''description'', JStr ''New start time in ISO format'')]),
                   (''end'', JObj [
                      (''type'', JStr ''string''),
                      (''description'', JStr ''New end time in ISO format'')]),
                   (''attendees'', JObj [
                      (''type'', JStr ''array''),
                      (''items'', JObj [(''type'', JStr ''string'')]),
                      (''description'', JStr ''New list of attendee email addresses'')])]),
                (''required'', JArr [JStr ''eventId''])])],
       JObj [(''name'', JStr ''delete_event''),
             (''description'', JStr ''Delete a calendar event''),
             (''inputSchema'', JObj [
                (''type'', JStr ''object''),
                (''properties'', JObj [
                   (''eventId'', JObj [
                      (''type'', JStr ''string''),
                      (''description'', JStr ''Event ID to delete'')])]),
                (''required'', JArr [JStr ''eventId''])])]])]"

text \<open>Of a catalog, the name of each descriptor with the \<open>required\<close> entry of its input
  schema (\<open>JUndefined\<close> when the schema has none).\<close>

definition declaredTools :: "jsval \<Rightarrow> (jsval \<times> jsval) list" where
  "declaredTools catalog =
     (case getProp catalog ''tools'' of
        JArr tools \<Rightarrow>
          map (\<lambda>tool. (getProp tool ''name'', getProp (getProp tool ''inputSchema'') ''required'')) tools
      | _ \<Rightarrow> [])"

text \<open>\<open>new McpError(code, message)\<close>, with the one code the program uses.\<close>

datatype ErrorCode = MethodNotFound

datatype mcp_error = McpError ErrorCode string

text \<open>The handler registered for \<open>CallToolRequestSchema\<close>, on \<open>request.params.name\<close>
  and \<open>request.params.arguments\<close>: the calls issued, and the \<open>McpError\<close> thrown or the
  value returned.\<close>

definition callTool :: "provider \<Rightarrow> string \<Rightarrow> jsval \<Rightarrow> call list \<times> (mcp_error + jsval)" where
  "callTool p name args =
     (if name = ''list_emails'' then map_prod id Inr (handleListEmails p args)
      else if name = ''search_emails'' then map_prod id Inr (handleSearchEmails p args)
      else if name = ''send_email'' then map_prod id Inr (handleSendEmail p args)
      else if name = ''modify_email'' then map_prod id Inr (handleModifyEmail p args)
      else if name = ''list_events'' then map_prod id Inr (handleListEvents p args)
      else if name = ''create_event'' then map_prod id Inr (handleCreateEvent p args)
      else if name = ''update_event'' then map_prod id Inr (handleUpdateEvent p args)
      else if name = ''delete_event'' then map_prod id Inr (handleDeleteEvent p args)
      else ([], Inl (McpError MethodNotFound (''Unknown tool: '' @ name))))"

section \<open>Sample providers\<close>

text \<open>A provider that fulfils every call with \<open>{id: 'r1'}\<close>: its mailbox and its
  calendar list nothing.\<close>

definition quietProvider :: provider where
  "quietProvider =
     \<lparr>respond = (\<lambda>k c. Inr (JObj [(''id'', JStr ''r1'')])),
      settle = (\<lambda>k. k),
      now = ''2024-05-01T08:00:00.000Z'',
      timeZone = ''Europe/Paris''\<rparr>"

text \<open>A provider that rejects every call with the message \<open>quota exceeded\<close>.\<close>

definition quotaProvider :: provider where
  "quotaProvider =
     \<lparr>respond = (\<lambda>k c. Inl (ProviderError ''quota exceeded'')),
      settle = (\<lambda>k. k),
      now = ''2024-05-01T08:00:00.000Z'',
      timeZone = ''Europe/Paris''\<rparr>"

text \<open>A mailbox with one message: the list call gives its reference, the detail
  fetch its \<open>From\<close> and \<open>Subject\<close> headers.\<close>

definition mailboxProvider :: provider where
  "mailboxProvider =
     \<lparr>respond = (\<lambda>k c.
        if fst c = Gmail_messages_list
        then Inr (JObj [(''messages'', JArr [JObj [(''id'', JStr ''m1''), (''threadId'', JStr ''t1'')]]),
                        (''resultSizeEstimate'', JNum 1)])
        else Inr (JObj [(''id'', getProp (snd c) ''id''),
                        (''payload'', JObj [(''headers'', JArr [
                           JObj [(''name'', JStr ''From''), (''value'', JStr ''a@x.com'')],
                           JObj [(''name'', JStr ''Subject''), (''value'', JStr ''Hello'')]])])])),
      settle = (\<lambda>k. k),
      now = ''2024-05-01T08:00:00.000Z'',
      timeZone = ''Europe/Paris''\<rparr>"

text \<open>A calendar with two events, the second without summary and location.\<close>

definition calendarProvider :: provider where
  "calendarProvider =
     \<lparr>respond = (\<lambda>k c.
        Inr (JObj [(''kind'', JStr ''calendar#events''),
                   (''items'', JArr [
                      JObj [(''id'', JStr ''e1''), (''summary'', JStr ''Standup''),
                            (''start'', JObj [(''dateTime'', JStr ''2024-05-01T09:00:00+02:00''),
                                              (''timeZone'', JStr ''Europe/Paris'')]),
                            (''end'', JObj [(''dateTime'', JStr ''2024-05-01T09:15:00+02:00''),
                                            (''timeZone'', JStr ''Europe/Paris'')]),
                            (''location'', JStr ''Room 1'')],
                      JObj [(''id'', JStr ''e2''),
                            (''start'', JObj [(''date'', JStr ''2024-05-02'')]),
                            (''end'', JObj [(''date'', JStr ''2024-05-03'')])]])])),
      settle = (\<lambda>k. k),
      now = ''2024-05-01T08:00:00.000Z'',
      timeZone = ''Europe/Paris''\<rparr>"

section \<open>Properties\<close>

subsection \<open>Auxiliary facts\<close>

lemma readProp_object: "\<not> nullish v \<Longrightarrow> readProp v k = Inr (getProp v k)"
  by (simp add: readProp_def nullish_def)

lemma destructure_object: "\<not> nullish v \<Longrightarrow> destructure v k = Inr v"
  by (simp add: destructure_def nullish_def)

lemma destructure_Inr: "destructure v k = Inr a \<Longrightarrow> a = v \<and> \<not> nullish v"
  by (auto simp: destructure_def nullish_def split: if_splits)

lemma handleListEmails_first_call:
  "\<exists>fetches. fst (handleListEmails p args) =
     (Gmail_messages_list,
      JObj [(''userId'', JStr ''me''),
            (''maxResults'', orElse (optProp args ''maxResults'') (JNum 10)),
            (''q'', orElse (optProp args ''query'') (JStr []))]) # fetches"
  by (simp add: handleListEmails_def Let_def split: sum.splits)

lemma handleListEvents_call:
  "fst (handleListEvents p args) =
     [(Calendar_events_list,
       JObj [(''calendarId'', JStr ''primary''),
             (''timeMin'', orElse (optProp args ''timeMin'') (JStr (now p))),
             (''timeMax'', optProp args ''timeMax''),
             (''maxResults'', orElse (optProp args ''maxResults'') (JNum 10)),
             (''singleEvents'', JBool True),
             (''orderBy'', JStr ''startTime'')])]"
  by (simp add: handleListEvents_def Let_def)

lemma searchEmailsDetail_eq: "searchEmailsDetail = listEmailsDetail"
  by (intro ext) (simp add: searchEmailsDetail_def listEmailsDetail_def)

lemma stripTrailingEquals_subset: "set (stripTrailingEquals s) \<subseteq> set s"
  using set_dropWhileD [of _ "\<lambda>c. c = CHR ''=''" "rev s"]
  by (auto simp: stripTrailingEquals_def)

lemma stripTrailingEquals_last: "stripTrailingEquals s \<noteq> t @ ''=''"
proof
  assume "stripTrailingEquals s = t @ ''=''"
  then have "dropWhile (\<lambda>c. c = CHR ''='') (rev s) = CHR ''='' # rev t"
    by (simp add: stripTrailingEquals_def rev_swap)
  then have "dropWhile (\<lambda>c. c = CHR ''='') (rev s) \<noteq> []"
    and "hd (dropWhile (\<lambda>c. c = CHR ''='') (rev s)) = CHR ''=''"
    by simp_all
  then show False
    using hd_dropWhile [of "\<lambda>c. c = CHR ''=''" "rev s"] by simp
qed

lemma encodeMessage_url_safe:
  "CHR ''+'' \<notin> set (encodeMessage message) \<and> CHR ''/'' \<notin> set (encodeMessage message) \<and>
   (\<forall>t. encodeMessage message \<noteq> t @ ''='')"
proof -
  have "CHR ''+'' \<notin> set (encodeMessage message)"
    using stripTrailingEquals_subset unfolding encodeMessage_def by (fastforce split: if_splits)
  moreover have "CHR ''/'' \<notin> set (encodeMessage message)"
    using stripTrailingEquals_subset unfolding encodeMessage_def by (fastforce split: if_splits)
  ultimately show ?thesis
    by (simp add: encodeMessage_def stripTrailingEquals_last)
qed

lemma updateEventBody_keys:
  assumes "updateEventBody p a = Inr body"
  shows "map fst body =
           filter (\<lambda>k. truthy (getProp a k))
             [''summary'', ''location'', ''description'', ''start'', ''end'', ''attendees'']"
  using assms
  by (auto simp: updateEventBody_def Let_def split: if_splits sum.splits)

lemma updateEventBody_entries:
  assumes "updateEventBody p a = Inr body"
  shows "body =
           (if truthy (getProp a ''summary'') then [(''summary'', getProp a ''summary'')] else []) @
           (if truthy (getProp a ''location'') then [(''location'', getProp a ''location'')] else []) @
           (if truthy (getProp a ''description'')
            then [(''description'', getProp a ''description'')] else []) @
           (if truthy (getProp a ''start'')
            then [(''start'', JObj [(''dateTime'', getProp a ''start''),
                                    (''timeZone'', JStr (timeZone p))])] else []) @
           (if truthy (getProp a ''end'')
            then [(''end'', JObj [(''dateTime'', getProp a ''end''),
                                  (''timeZone'', JStr (timeZone p))])] else []) @
           (case getProp a ''attendees'' of
              JArr emails \<Rightarrow> [(''attendees'', JArr (map (\<lambda>email. JObj [(''email'', email)]) emails))]
            | _ \<Rightarrow> [])"
  using assms
  by (cases "getProp a ''attendees''")
     (auto simp: updateEventBody_def Let_def receiver_def readProp_def split: if_splits)

lemma updateEventBody_total:
  assumes "\<not> truthy (getProp a ''attendees'') \<or> (\<exists>emails. getProp a ''attendees'' = JArr emails)"
  shows "\<exists>body. updateEventBody p a = Inr body"
  using assms by (auto simp: updateEventBody_def Let_def receiver_def)

lemma mapThrowing_listEventsItem:
  assumes "\<forall>event \<in> set items. \<not> nullish event"
  shows "mapThrowing listEventsItem items =
           Inr (map (\<lambda>event. JObj [(''id'', getProp event ''id''),
                                     (''summary'', getProp event ''summary''),
                                     (''start'', getProp event ''start''),
                                     (''end'', getProp event ''end''),
                                     (''location'', getProp event ''location'')]) items)"
  using assms
  by (induction items) (simp_all add: listEventsItem_def readProp_object)

subsection \<open>The dispatcher and the catalog\<close>

text \<open>
  C1. A tool name that is none of the eight registered names makes the dispatcher throw
  an \<open>McpError\<close> with code \<open>MethodNotFound\<close>, before any provider call; it returns no
  value, so in particular not the error envelope of the handlers.
\<close>

theorem unknown_tool_method_not_found:
  assumes "name \<notin> {''list_emails'', ''search_emails'', ''send_email'', ''modify_email'',
                    ''list_events'', ''create_event'', ''update_event'', ''delete_event''}"
  shows "callTool p name args = ([], Inl (McpError MethodNotFound (''Unknown tool: '' @ name))) \<and>
         (\<forall>result. snd (callTool p name args) \<noteq> Inr result)"
  using assms by (simp add: callTool_def)

text \<open>The name \<open>bogus_tool\<close>.\<close>

theorem unknown_tool_method_not_found_witness:
  "callTool quietProvider ''bogus_tool'' (JObj []) =
     ([], Inl (McpError MethodNotFound ''Unknown tool: bogus_tool'')) \<and>
   (\<forall>result. snd (callTool quietProvider ''bogus_tool'' (JObj [])) \<noteq> Inr result)"
  using unknown_tool_method_not_found [of "''bogus_tool''" quietProvider "JObj []"]
  by simp

text \<open>
  C7. The tool catalog does not depend on the request it answers, and is always the same
  sequence of eight descriptors, named \<open>list_emails\<close>, \<open>search_emails\<close>, \<open>send_email\<close>,
  \<open>modify_email\<close>, \<open>list_events\<close>, \<open>create_event\<close>, \<open>update_event\<close>, \<open>delete_event\<close>
  in this order. The required fields declared are \<open>query\<close> for \<open>search_emails\<close>; \<open>to\<close>,
  \<open>subject\<close>, \<open>body\<close> for \<open>send_email\<close>; \<open>id\<close> for \<open>modify_email\<close>; \<open>summary\<close>,
  \<open>start\<close>, \<open>end\<close> for \<open>create_event\<close>; \<open>eventId\<close> for \<open>update_event\<close> and for
  \<open>delete_event\<close>; \<open>list_emails\<close> and \<open>list_events\<close> declare none.
\<close>

theorem catalog_fixed:
  "listTools request = listTools request' \<and>
   declaredTools (listTools request) =
     [(JStr ''list_emails'', JUndefined),
      (JStr ''search_emails'', JArr [JStr ''query'']),
      (JStr ''send_email'', JArr [JStr ''to'', JStr ''subject'', JStr ''body'']),
      (JStr ''modify_email'', JArr [JStr ''id'']),
      (JStr ''list_events'', JUndefined),
      (JStr ''create_event'', JArr [JStr ''summary'', JStr ''start'', JStr ''end'']),
      (JStr ''update_event'', JArr [JStr ''eventId'']),
      (JStr ''delete_event'', JArr [JStr ''eventId''])]"
  by (simp add: listTools_def declaredTools_def)

subsection \<open>Errors of the provider\<close>

text \<open>
  C2. When \<open>handleCreateEvent\<close> issues its insert call and the provider rejects it with
  an error, the handler returns \<open>{content: [{type: 'text', text: 'Error creating event: '
  + error.message}], isError: true}\<close>, with this one content entry; the error is a
  returned value, nothing is thrown.
\<close>

theorem create_event_provider_failure:
  assumes "fst (handleCreateEvent p args) = [insertCall]"
    and "respond p 0 insertCall = Inl error"
  shows "snd (handleCreateEvent p args) =
           JObj [(''content'', JArr [JObj [(''type'', JStr ''text''),
                                           (''text'', JStr (''Error creating event: '' @ message_of error))]]),
                 (''isError'', JBool True)] \<and>
         fst insertCall = Calendar_events_insert"
  using assms
  by (auto simp: handleCreateEvent_def Let_def errorResult_def split: sum.splits)

text \<open>The provider error \<open>quota exceeded\<close>.\<close>

theorem create_event_provider_failure_witness:
  "snd (handleCreateEvent quotaProvider
          (JObj [(''summary'', JStr ''Standup''), (''start'', JStr ''2024-05-01T09:00:00''),
                 (''end'', JStr ''2024-05-01T09:15:00'')])) =
     JObj [(''content'', JArr [JObj [(''type'', JStr ''text''),
                                     (''text'', JStr ''Error creating event: quota exceeded'')]]),
           (''isError'', JBool True)]"
proof -
  let ?args = "JObj [(''summary'', JStr ''Standup''), (''start'', JStr ''2024-05-01T09:00:00''),
                     (''end'', JStr ''2024-05-01T09:15:00'')]"
  let ?call = "(Calendar_events_insert,
     JObj [(''calendarId'', JStr ''primary''),
           (''requestBody'',
            JObj [(''summary'', JStr ''Standup''), (''location'', JUndefined),
                  (''description'', JUndefined),
                  (''start'', JObj [(''dateTime'', JStr ''2024-05-01T09:00:00''),
                                    (''timeZone'', JStr ''Europe/Paris'')]),
                  (''end'', JObj [(''dateTime'', JStr ''2024-05-01T09:15:00''),
                                  (''timeZone'', JStr ''Europe/Paris'')]),
                  (''attendees'', JArr [])])])"
  have issued: "fst (handleCreateEvent quotaProvider ?args) = [?call]"
    by (simp add: handleCreateEvent_def quotaProvider_def destructure_def withDefault_def
        receiver_def)
  have failed: "respond quotaProvider 0 ?call = Inl (ProviderError ''quota exceeded'')"
    by (simp add: quotaProvider_def)
  from create_event_provider_failure [OF issued failed] show ?thesis
    by simp
qed

subsection \<open>The Gmail handlers\<close>

text \<open>
  C3. For the arguments \<open>{to: 'a@x.com', subject: 'Hi', body: '<b>hi</b>'}\<close> the message
  handed to the encoder is the four header lines and the body joined by CRLF, with no
  blank line between the last header and the body: \<open>filter(Boolean)\<close> removes the empty
  string that was to be that line. So the message differs from the one with a blank
  line. For every message, the encoding has no \<open>+\<close>, no \<open>/\<close> and no \<open>=\<close> at its end.
\<close>

theorem send_email_drops_blank_line:
  "sendEmailMessage (JObj [(''to'', JStr ''a@x.com''), (''subject'', JStr ''Hi''),
                           (''body'', JStr ''<b>hi</b>'')]) =
     ''Content-Type: text/html; charset=utf-8'' @ [CHR 0x0D, CHR 0x0A] @
     ''MIME-Version: 1.0'' @ [CHR 0x0D, CHR 0x0A] @
     ''To: a@x.com'' @ [CHR 0x0D, CHR 0x0A] @
     ''Subject: Hi'' @ [CHR 0x0D, CHR 0x0A] @
     ''<b>hi</b>'' \<and>
   sendEmailMessage (JObj [(''to'', JStr ''a@x.com''), (''subject'', JStr ''Hi''),
                           (''body'', JStr ''<b>hi</b>'')]) \<noteq>
     ''Content-Type: text/html; charset=utf-8'' @ [CHR 0x0D, CHR 0x0A] @
     ''MIME-Version: 1.0'' @ [CHR 0x0D, CHR 0x0A] @
     ''To: a@x.com'' @ [CHR 0x0D, CHR 0x0A] @
     ''Subject: Hi'' @ [CHR 0x0D, CHR 0x0A] @
     [CHR 0x0D, CHR 0x0A] @
     ''<b>hi</b>'' \<and>
   fst (handleSendEmail p (JObj [(''to'', JStr ''a@x.com''), (''subject'', JStr ''Hi''),
                                 (''body'', JStr ''<b>hi</b>'')])) =
     [(Gmail_messages_send,
       JObj [(''userId'', JStr ''me''),
             (''requestBody'', JObj [(''raw'', JStr
                ''Q29udGVudC1UeXBlOiB0ZXh0L2h0bWw7IGNoYXJzZXQ9dXRmLTgNCk1JTUUtVmVyc2lvbjogMS4wDQpUbzogYUB4LmNvbQ0KU3ViamVjdDogSGkNCjxiPmhpPC9iPg'')])])] \<and>
   CHR ''+'' \<notin> set (encodeMessage message) \<and>
   CHR ''/'' \<notin> set (encodeMessage message) \<and>
   (\<forall>t. encodeMessage message \<noteq> t @ ''='')"
proof -
  let ?args = "JObj [(''to'', JStr ''a@x.com''), (''subject'', JStr ''Hi''),
                     (''body'', JStr ''<b>hi</b>'')]"
  have built: "sendEmailMessage ?args =
     ''Content-Type: text/html; charset=utf-8'' @ [CHR 0x0D, CHR 0x0A] @
     ''MIME-Version: 1.0'' @ [CHR 0x0D, CHR 0x0A] @
     ''To: a@x.com'' @ [CHR 0x0D, CHR 0x0A] @
     ''Subject: Hi'' @ [CHR 0x0D, CHR 0x0A] @
     ''<b>hi</b>''"
    by (simp add: sendEmailMessage_def joinArray_def nullish_def)
  have differs: "sendEmailMessage ?args \<noteq>
     ''Content-Type: text/html; charset=utf-8'' @ [CHR 0x0D, CHR 0x0A] @
     ''MIME-Version: 1.0'' @ [CHR 0x0D, CHR 0x0A] @
     ''To: a@x.com'' @ [CHR 0x0D, CHR 0x0A] @
     ''Subject: Hi'' @ [CHR 0x0D, CHR 0x0A] @
     [CHR 0x0D, CHR 0x0A] @
     ''<b>hi</b>''"
    by (simp add: sendEmailMessage_def joinArray_def nullish_def)
  have encoded: "encodeMessage (sendEmailMessage ?args) =
     ''Q29udGVudC1UeXBlOiB0ZXh0L2h0bWw7IGNoYXJzZXQ9dXRmLTgNCk1JTUUtVmVyc2lvbjogMS4wDQpUbzogYUB4LmNvbQ0KU3ViamVjdDogSGkNCjxiPmhpPC9iPg''"
    by code_simp
  have "fst (handleSendEmail p ?args) =
     [(Gmail_messages_send,
       JObj [(''userId'', JStr ''me''),
             (''requestBody'', JObj [(''raw'', JStr (encodeMessage (sendEmailMessage ?args)))])])]"
    by (simp add: handleSendEmail_def destructure_def Let_def)
  then have sent: "fst (handleSendEmail p ?args) =
     [(Gmail_messages_send,
       JObj [(''userId'', JStr ''me''),
             (''requestBody'', JObj [(''raw'', JStr
                ''Q29udGVudC1UeXBlOiB0ZXh0L2h0bWw7IGNoYXJzZXQ9dXRmLTgNCk1JTUUtVmVyc2lvbjogMS4wDQpUbzogYUB4LmNvbQ0KU3ViamVjdDogSGkNCjxiPmhpPC9iPg'')])])]"
    by (simp only: encoded)
  from built differs sent encodeMessage_url_safe [of message] show ?thesis
    by (intro conjI) blast+
qed

text \<open>
  C4. The list call of \<open>handleListEmails\<close> carries \<open>maxResults\<close> 10 whenever the
  argument is falsy, \<open>0\<close> included. When the provider answers that call with a response
  whose \<open>messages\<close> is absent, otherwise falsy, or the empty array, the handler issues no
  detail fetch and returns \<open>{content: [{type: 'text', text: '[]'}]}\<close>, with no \<open>isError\<close>
  property.
\<close>

theorem list_emails_without_messages:
  assumes "listCall = (Gmail_messages_list,
             JObj [(''userId'', JStr ''me''),
                   (''maxResults'', if truthy (optProp args ''maxResults'')
                                    then optProp args ''maxResults'' else JNum 10),
                   (''q'', if truthy (optProp args ''query'') then optProp args ''query'' else JStr [])])"
  shows "(\<exists>fetches. fst (handleListEmails p args) = listCall # fetches) \<and>
         (respond p 0 listCall = Inr data \<longrightarrow> \<not> nullish data \<longrightarrow>
          (getProp data ''messages'' = JArr [] \<or> \<not> truthy (getProp data ''messages'')) \<longrightarrow>
          handleListEmails p args =
            ([listCall], JObj [(''content'', JArr [JObj [(''type'', JStr ''text''),
                                                       (''text'', JStr ''[]'')]])]))"
proof (intro conjI impI)
  show "\<exists>fetches. fst (handleListEmails p args) = listCall # fetches"
    using handleListEmails_first_call [of p args] by (simp add: assms orElse_def)
next
  assume response: "respond p 0 listCall = Inr data"
    and object: "\<not> nullish data"
    and none: "getProp data ''messages'' = JArr [] \<or> \<not> truthy (getProp data ''messages'')"
  from none have "orElse (getProp data ''messages'') (JArr []) = JArr []"
    by (auto simp: orElse_def)
  with response object show "handleListEmails p args =
            ([listCall], JObj [(''content'', JArr [JObj [(''type'', JStr ''text''),
                                                       (''text'', JStr ''[]'')]])])"
    unfolding assms
    by (simp add: handleListEmails_def orElse_def readProp_object receiver_def enumerate_eq_zip
        Promise_all_def textResult_def JSON_stringify_def bracketed_def)
qed

text \<open>\<open>maxResults: 0\<close> against a provider that lists nothing.\<close>

theorem list_emails_without_messages_witness:
  "handleListEmails quietProvider (JObj [(''maxResults'', JNum 0)]) =
     ([(Gmail_messages_list,
        JObj [(''userId'', JStr ''me''), (''maxResults'', JNum 10), (''q'', JStr [])])],
      JObj [(''content'', JArr [JObj [(''type'', JStr ''text''), (''text'', JStr ''[]'')]])])"
  using list_emails_without_messages
    [of "(Gmail_messages_list,
          JObj [(''userId'', JStr ''me''), (''maxResults'', JNum 10), (''q'', JStr [])])"
        "JObj [(''maxResults'', JNum 0)]" quietProvider "JObj [(''id'', JStr ''r1'')]"]
  by (simp add: optProp_def nullish_def quietProvider_def)

text \<open>\<open>maxResults: 0\<close> against a mailbox with one message: the provider is asked for 10
  results, the message is fetched, and the text is not \<open>[]\<close>.\<close>

theorem list_emails_zero_maxResults_counterexample:
  "fst (handleListEmails mailboxProvider (JObj [(''maxResults'', JNum 0)])) =
     [(Gmail_messages_list,
       JObj [(''userId'', JStr ''me''), (''maxResults'', JNum 10), (''q'', JStr [])]),
      (Gmail_messages_get, JObj [(''userId'', JStr ''me''), (''id'', JStr ''m1'')])] \<and>
   getProp (snd (handleListEmails mailboxProvider (JObj [(''maxResults'', JNum 0)]))) ''content'' \<noteq>
     JArr [JObj [(''type'', JStr ''text''), (''text'', JStr ''[]'')]]"
  by (simp add: handleListEmails_def mailboxProvider_def orElse_def optProp_def nullish_def
      readProp_def receiver_def enumerate_eq_zip listEmailsDetail_def headerValue_def
      Promise_all_def textResult_def JSON_stringify_def bracketed_def)

text \<open>
  C5. \<open>handleSearchEmails\<close> and \<open>handleListEmails\<close> are the same function of the
  provider and the arguments: the same calls in the same order and the same result,
  whether the calls succeed or fail.
\<close>

theorem search_emails_same_as_list_emails:
  "handleSearchEmails p args = handleListEmails p args"
  unfolding handleSearchEmails_def handleListEmails_def searchEmailsDetail_eq ..

text \<open>
  C9. For arguments that are an object with neither \<open>addLabels\<close> nor \<open>removeLabels\<close>,
  \<open>handleModifyEmail\<close> issues exactly one call, the modify call for the given \<open>id\<close> with
  \<open>addLabelIds\<close> and \<open>removeLabelIds\<close> both the empty array; nothing is thrown for the
  missing fields. When the provider fulfils the call with the message resource, the
  handler returns the success text, and \<open>isError\<close> is not \<open>true\<close>.
\<close>

theorem modify_email_without_labels:
  assumes "\<not> nullish args"
    and "getProp args ''addLabels'' = JUndefined"
    and "getProp args ''removeLabels'' = JUndefined"
    and "modifyCall = (Gmail_messages_modify,
             JObj [(''userId'', JStr ''me''), (''id'', getProp args ''id''),
                   (''requestBody'', JObj [(''addLabelIds'', JArr []), (''removeLabelIds'', JArr [])])])"
  shows "fst (handleModifyEmail p args) = [modifyCall] \<and>
         (respond p 0 modifyCall = Inr data \<longrightarrow> \<not> nullish data \<longrightarrow>
            snd (handleModifyEmail p args) =
              JObj [(''content'', JArr [JObj [(''type'', JStr ''text''),
                 (''text'', JStr (''Email modified successfully. Updated labels for message ID: '' @
                                  toString (getProp data ''id'')))]])] \<and>
            getProp (snd (handleModifyEmail p args)) ''isError'' \<noteq> JBool True)"
  using assms
  by (simp add: handleModifyEmail_def destructure_object withDefault_def readProp_object
      textResult_def Let_def)

text \<open>The arguments \<open>{id: 'm1'}\<close>.\<close>

theorem modify_email_without_labels_witness:
  "handleModifyEmail quietProvider (JObj [(''id'', JStr ''m1'')]) =
     ([(Gmail_messages_modify,
        JObj [(''userId'', JStr ''me''), (''id'', JStr ''m1''),
              (''requestBody'', JObj [(''addLabelIds'', JArr []), (''removeLabelIds'', JArr [])])])],
      JObj [(''content'', JArr [JObj [(''type'', JStr ''text''),
         (''text'', JStr ''Email modified successfully. Updated labels for message ID: r1'')]])]) \<and>
   getProp (snd (handleModifyEmail quietProvider (JObj [(''id'', JStr ''m1'')]))) ''isError'' \<noteq> JBool True"
proof -
  let ?args = "JObj [(''id'', JStr ''m1'')]"
  let ?call = "(Gmail_messages_modify,
        JObj [(''userId'', JStr ''me''), (''id'', JStr ''m1''),
              (''requestBody'', JObj [(''addLabelIds'', JArr []), (''removeLabelIds'', JArr [])])])"
  have object: "\<not> nullish ?args"
    by (simp add: nullish_def)
  have call: "?call = (Gmail_messages_modify,
             JObj [(''userId'', JStr ''me''), (''id'', getProp ?args ''id''),
                   (''requestBody'', JObj [(''addLabelIds'', JArr []), (''removeLabelIds'', JArr [])])])"
    by simp
  have response: "respond quietProvider 0 ?call = Inr (JObj [(''id'', JStr ''r1'')])"
    by (simp add: quietProvider_def)
  have data: "\<not> nullish (JObj [(''id'', JStr ''r1'')])"
    by (simp add: nullish_def)
  from modify_email_without_labels [OF object _ _ call, of quietProvider "JObj [(''id'', JStr ''r1'')]"]
    response data
  show ?thesis
    by (simp add: prod_eq_iff)
qed

subsection \<open>The Calendar handlers\<close>

text \<open>
  C6. Every call that \<open>handleUpdateEvent\<close> issues is a patch of the calendar \<open>primary\<close>
  for the given \<open>eventId\<close>, and the keys of its body are exactly those of \<open>summary\<close>,
  \<open>location\<close>, \<open>description\<close>, \<open>start\<close>, \<open>end\<close>, \<open>attendees\<close> whose argument is
  truthy, in this order. The entries are: \<open>summary\<close>, \<open>location\<close> and \<open>description\<close>
  with the argument itself; \<open>start\<close> and \<open>end\<close> with \<open>{dateTime: <argument>, timeZone:
  <the host's zone>}\<close>; \<open>attendees\<close> with one \<open>{email}\<close> object for each element of the
  array given. The call is issued whenever the arguments are an object whose
  \<open>attendees\<close> is falsy or an array. With \<open>eventId\<close> alone the body is the empty
  object.
\<close>

theorem update_event_patch_fields:
  "(\<forall>c \<in> set (fst (handleUpdateEvent p args)).
      \<exists>body. c = (Calendar_events_patch,
                    JObj [(''calendarId'', JStr ''primary''),
                          (''eventId'', getProp args ''eventId''),
                          (''requestBody'', JObj body)]) \<and>
             map fst body =
               filter (\<lambda>k. truthy (getProp args k))
                 [''summary'', ''location'', ''description'', ''start'', ''end'', ''attendees''] \<and>
             body =
               (if truthy (getProp args ''summary'')
                then [(''summary'', getProp args ''summary'')] else []) @
               (if truthy (getProp args ''location'')
                then [(''location'', getProp args ''location'')] else []) @
               (if truthy (getProp args ''description'')
                then [(''description'', getProp args ''description'')] else []) @
               (if truthy (getProp args ''start'')
                then [(''start'', JObj [(''dateTime'', getProp args ''start''),
                                        (''timeZone'', JStr (timeZone p))])] else []) @
               (if truthy (getProp args ''end'')
                then [(''end'', JObj [(''dateTime'', getProp args ''end''),
                                      (''timeZone'', JStr (timeZone p))])] else []) @
               (case getProp args ''attendees'' of
                  JArr emails \<Rightarrow>
                    [(''attendees'', JArr (map (\<lambda>email. JObj [(''email'', email)]) emails))]
                | _ \<Rightarrow> [])) \<and>
   (\<not> nullish args \<longrightarrow>
    (getProp args ''attendees'' \<in> range JArr \<or> \<not> truthy (getProp args ''attendees'')) \<longrightarrow>
    length (fst (handleUpdateEvent p args)) = 1) \<and>
   fst (handleUpdateEvent p (JObj [(''eventId'', eventId)])) =
     [(Calendar_events_patch,
       JObj [(''calendarId'', JStr ''primary''), (''eventId'', eventId),
             (''requestBody'', JObj [])])]"
proof (intro conjI ballI impI)
  fix c
  assume issued: "c \<in> set (fst (handleUpdateEvent p args))"
  show "\<exists>body. c = (Calendar_events_patch,
                    JObj [(''calendarId'', JStr ''primary''),
                          (''eventId'', getProp args ''eventId''),
                          (''requestBody'', JObj body)]) \<and>
             map fst body =
               filter (\<lambda>k. truthy (getProp args k))
                 [''summary'', ''location'', ''description'', ''start'', ''end'', ''attendees''] \<and>
             body =
               (if truthy (getProp args ''summary'')
                then [(''summary'', getProp args ''summary'')] else []) @
               (if truthy (getProp args ''location'')
                then [(''location'', getProp args ''location'')] else []) @
               (if truthy (getProp args ''description'')
                then [(''description'', getProp args ''description'')] else []) @
               (if truthy (getProp args ''start'')
                then [(''start'', JObj [(''dateTime'', getProp args ''start''),
                                        (''timeZone'', JStr (timeZone p))])] else []) @
               (if truthy (getProp args ''end'')
                then [(''end'', JObj [(''dateTime'', getProp args ''end''),
                                      (''timeZone'', JStr (timeZone p))])] else []) @
               (case getProp args ''attendees'' of
                  JArr emails \<Rightarrow>
                    [(''attendees'', JArr (map (\<lambda>email. JObj [(''email'', email)]) emails))]
                | _ \<Rightarrow> [])"
  proof (cases "destructure args ''eventId''")
    case (Inl error)
    with issued show ?thesis
      by (simp add: handleUpdateEvent_def)
  next
    case (Inr a)
    then have a: "a = args"
      by (simp add: destructure_Inr)
    show ?thesis
    proof (cases "updateEventBody p args")
      case (Inl error)
      with issued Inr a show ?thesis
        by (simp add: handleUpdateEvent_def)
    next
      case body: (Inr body)
      with issued Inr a have "c = (Calendar_events_patch,
                    JObj [(''calendarId'', JStr ''primary''),
                          (''eventId'', getProp args ''eventId''),
                          (''requestBody'', JObj body)])"
        by (simp add: handleUpdateEvent_def Let_def)
      with updateEventBody_keys [OF body] updateEventBody_entries [OF body] show ?thesis
        by blast
    qed
  qed
next
  assume object: "\<not> nullish args"
    and "getProp args ''attendees'' \<in> range JArr \<or> \<not> truthy (getProp args ''attendees'')"
  then have "\<not> truthy (getProp args ''attendees'') \<or> (\<exists>emails. getProp args ''attendees'' = JArr emails)"
    by auto
  from updateEventBody_total [OF this] obtain body where "updateEventBody p args = Inr body"
    by blast
  with object show "length (fst (handleUpdateEvent p args)) = 1"
    by (simp add: handleUpdateEvent_def destructure_object Let_def)
next
  show "fst (handleUpdateEvent p (JObj [(''eventId'', eventId)])) =
     [(Calendar_events_patch,
       JObj [(''calendarId'', JStr ''primary''), (''eventId'', eventId),
             (''requestBody'', JObj [])])]"
    by (simp add: handleUpdateEvent_def destructure_def updateEventBody_def Let_def)
qed

text \<open>An update that gives a summary, an empty location, an end and one attendee: the
  body has \<open>summary\<close>, \<open>end\<close> and \<open>attendees\<close>. And the update with \<open>eventId\<close> alone.\<close>

theorem update_event_patch_fields_witness:
  "fst (handleUpdateEvent quietProvider
          (JObj [(''eventId'', JStr ''e1''), (''summary'', JStr ''New''),
                 (''location'', JStr []), (''end'', JStr ''2024-05-01T10:00:00''),
                 (''attendees'', JArr [JStr ''b@x.com''])])) =
     [(Calendar_events_patch,
       JObj [(''calendarId'', JStr ''primary''), (''eventId'', JStr ''e1''),
             (''requestBody'',
              JObj [(''summary'', JStr ''New''),
                    (''end'', JObj [(''dateTime'', JStr ''2024-05-01T10:00:00''),
                                    (''timeZone'', JStr ''Europe/Paris'')]),
                    (''attendees'', JArr [JObj [(''email'', JStr ''b@x.com'')]])])])] \<and>
   (\<exists>body. (Calendar_events_patch,
             JObj [(''calendarId'', JStr ''primary''), (''eventId'', JStr ''e1''),
                   (''requestBody'',
                    JObj [(''summary'', JStr ''New''),
                          (''end'', JObj [(''dateTime'', JStr ''2024-05-01T10:00:00''),
                                          (''timeZone'', JStr ''Europe/Paris'')]),
                          (''attendees'', JArr [JObj [(''email'', JStr ''b@x.com'')]])])]) =
            (Calendar_events_patch,
             JObj [(''calendarId'', JStr ''primary''), (''eventId'', JStr ''e1''),
                   (''requestBody'', JObj body)]) \<and>
            map fst body = [''summary'', ''end'', ''attendees'']) \<and>
   fst (handleUpdateEvent quietProvider (JObj [(''eventId'', JStr ''e1'')])) =
     [(Calendar_events_patch,
       JObj [(''calendarId'', JStr ''primary''), (''eventId'', JStr ''e1''),
             (''requestBody'', JObj [])])]"
proof -
  let ?args = "JObj [(''eventId'', JStr ''e1''), (''summary'', JStr ''New''),
                     (''location'', JStr []), (''end'', JStr ''2024-05-01T10:00:00''),
                     (''attendees'', JArr [JStr ''b@x.com''])]"
  let ?c = "(Calendar_events_patch,
             JObj [(''calendarId'', JStr ''primary''), (''eventId'', JStr ''e1''),
                   (''requestBody'',
                    JObj [(''summary'', JStr ''New''),
                          (''end'', JObj [(''dateTime'', JStr ''2024-05-01T10:00:00''),
                                          (''timeZone'', JStr ''Europe/Paris'')]),
                          (''attendees'', JArr [JObj [(''email'', JStr ''b@x.com'')]])])])"
  have issued: "fst (handleUpdateEvent quietProvider ?args) = [?c]"
    by (simp add: handleUpdateEvent_def destructure_def updateEventBody_def Let_def
        receiver_def quietProvider_def)
  then have "?c \<in> set (fst (handleUpdateEvent quietProvider ?args))"
    by simp
  with update_event_patch_fields [of quietProvider ?args "JStr ''e1''"] issued show ?thesis
    by simp
qed

text \<open>
  C8. \<open>handleListEvents\<close> issues exactly one call, whatever the arguments and the
  response: the events list of calendar \<open>primary\<close> with \<open>singleEvents\<close> true and
  \<open>orderBy\<close> \<open>startTime\<close>, with \<open>maxResults\<close> 10 unless a truthy one is given, \<open>timeMin\<close>
  the current time unless a truthy one is given, and \<open>timeMax\<close> as given. When the
  response lists event objects, the text returned is the JSON of the array that has, for
  each item and in the order of the items, the object with the item's \<open>id\<close>, \<open>summary\<close>,
  \<open>start\<close>, \<open>end\<close> and \<open>location\<close>, each as the provider gave it.
\<close>

theorem list_events_one_call_in_provider_order:
  assumes "listCall = (Calendar_events_list,
             JObj [(''calendarId'', JStr ''primary''),
                   (''timeMin'', if truthy (optProp args ''timeMin'')
                                 then optProp args ''timeMin'' else JStr (now p)),
                   (''timeMax'', optProp args ''timeMax''),
                   (''maxResults'', if truthy (optProp args ''maxResults'')
                                    then optProp args ''maxResults'' else JNum 10),
                   (''singleEvents'', JBool True),
                   (''orderBy'', JStr ''startTime'')])"
  shows "fst (handleListEvents p args) = [listCall] \<and>
         (respond p 0 listCall = Inr data \<longrightarrow>
          getProp data ''items'' = JArr items \<longrightarrow>
          (\<forall>event \<in> set items. \<not> nullish event) \<longrightarrow>
          snd (handleListEvents p args) =
            JObj [(''content'', JArr [JObj [(''type'', JStr ''text''),
               (''text'', JSON_stringify (JArr (map
                  (\<lambda>event. JObj [(''id'', getProp event ''id''),
                                 (''summary'', getProp event ''summary''),
                                 (''start'', getProp event ''start''),
                                 (''end'', getProp event ''end''),
                                 (''location'', getProp event ''location'')]) items)))]])])"
proof (intro conjI impI)
  show "fst (handleListEvents p args) = [listCall]"
    by (simp add: handleListEvents_call assms orElse_def)
next
  assume response: "respond p 0 listCall = Inr data"
    and listed: "getProp data ''items'' = JArr items"
    and objects: "\<forall>event \<in> set items. \<not> nullish event"
  from listed have "\<not> nullish data"
    by (auto simp: nullish_def)
  with response listed mapThrowing_listEventsItem [OF objects]
  show "snd (handleListEvents p args) =
            JObj [(''content'', JArr [JObj [(''type'', JStr ''text''),
               (''text'', JSON_stringify (JArr (map
                  (\<lambda>event. JObj [(''id'', getProp event ''id''),
                                 (''summary'', getProp event ''summary''),
                                 (''start'', getProp event ''start''),
                                 (''end'', getProp event ''end''),
                                 (''location'', getProp event ''location'')]) items)))]])]"
    unfolding assms
    by (simp add: handleListEvents_def Let_def orElse_def readProp_object nullish_def
        receiver_def textResult_def)
qed

text \<open>No arguments, against the calendar with two events.\<close>

theorem list_events_one_call_in_provider_order_witness:
  "fst (handleListEvents calendarProvider JUndefined) =
     [(Calendar_events_list,
       JObj [(''calendarId'', JStr ''primary''), (''timeMin'', JStr ''2024-05-01T08:00:00.000Z''),
             (''timeMax'', JUndefined), (''maxResults'', JNum 10),
             (''singleEvents'', JBool True), (''orderBy'', JStr ''startTime'')])] \<and>
   snd (handleListEvents calendarProvider JUndefined) =
     JObj [(''content'', JArr [JObj [(''type'', JStr ''text''),
        (''text'', JSON_stringify (JArr [
           JObj [(''id'', JStr ''e1''), (''summary'', JStr ''Standup''),
                 (''start'', JObj [(''dateTime'', JStr ''2024-05-01T09:00:00+02:00''),
                                   (''timeZone'', JStr ''Europe/Paris'')]),
                 (''end'', JObj [(''dateTime'', JStr ''2024-05-01T09:15:00+02:00''),
                                 (''timeZone'', JStr ''Europe/Paris'')]),
                 (''location'', JStr ''Room 1'')],
           JObj [(''id'', JStr ''e2''), (''summary'', JUndefined),
                 (''start'', JObj [(''date'', JStr ''2024-05-02'')]),
                 (''end'', JObj [(''date'', JStr ''2024-05-03'')]),
                 (''location'', JUndefined)]]))]])]"
proof -
  let ?call = "(Calendar_events_list,
       JObj [(''calendarId'', JStr ''primary''), (''timeMin'', JStr ''2024-05-01T08:00:00.000Z''),
             (''timeMax'', JUndefined), (''maxResults'', JNum 10),
             (''singleEvents'', JBool True), (''orderBy'', JStr ''startTime'')])"
  let ?items = "[JObj [(''id'', JStr ''e1''), (''summary'', JStr ''Standup''),
                       (''start'', JObj [(''dateTime'', JStr ''2024-05-01T09:00:00+02:00''),
                                         (''timeZone'', JStr ''Europe/Paris'')]),
                       (''end'', JObj [(''dateTime'', JStr ''2024-05-01T09:15:00+02:00''),
                                       (''timeZone'', JStr ''Europe/Paris'')]),
                       (''location'', JStr ''Room 1'')],
                 JObj [(''id'', JStr ''e2''),
                       (''start'', JObj [(''date'', JStr ''2024-05-02'')]),
                       (''end'', JObj [(''date'', JStr ''2024-05-03'')])]]"
  let ?data = "JObj [(''kind'', JStr ''calendar#events''), (''items'', JArr ?items)]"
  have call: "?call = (Calendar_events_list,
             JObj [(''calendarId'', JStr ''primary''),
                   (''timeMin'', if truthy (optProp JUndefined ''timeMin'')
                                 then optProp JUndefined ''timeMin'' else JStr (now calendarProvider)),
                   (''timeMax'', optProp JUndefined ''timeMax''),
                   (''maxResults'', if truthy (optProp JUndefined ''maxResults'')
                                    then optProp JUndefined ''maxResults'' else JNum 10),
                   (''singleEvents'', JBool True),
                   (''orderBy'', JStr ''startTime'')])"
    by (simp add: optProp_def calendarProvider_def)
  have response: "respond calendarProvider 0 ?call = Inr ?data"
    by (simp add: calendarProvider_def)
  have listed: "getProp ?data ''items'' = JArr ?items"
    by simp
  have objects: "\<forall>event \<in> set ?items. \<not> nullish event"
    by (simp add: nullish_def)
  from list_events_one_call_in_provider_order [OF call, of ?data ?items] response listed objects
  show ?thesis
    by simp
qed

text \<open>
  C10. When the response to the events list call is an object without \<open>items\<close>,
  \<open>handleListEvents\<close> returns \<open>{content: [{type: 'text', text: JSON.stringify(undefined)}]}\<close>,
  whose text is \<open>undefined\<close> and not the string \<open>[]\<close>, and reports no error.
  \<open>handleListEmails\<close>, when the response to its list call is an object without
  \<open>messages\<close>, returns the text \<open>[]\<close>.
\<close>

theorem list_events_without_items:
  assumes "fst (handleListEvents p args) = [listCall]"
    and "respond p 0 listCall = Inr data"
    and "\<not> nullish data"
    and "getProp data ''items'' = JUndefined"
    and "fst (handleListEmails p' args') = listCall' # fetches"
    and "respond p' 0 listCall' = Inr data'"
    and "\<not> nullish data'"
    and "getProp data' ''messages'' = JUndefined"
  shows "snd (handleListEvents p args) =
           JObj [(''content'', JArr [JObj [(''type'', JStr ''text''),
                                           (''text'', JSON_stringify JUndefined)]])] \<and>
         JSON_stringify JUndefined = JUndefined \<and>
         JSON_stringify JUndefined \<noteq> JStr ''[]'' \<and>
         snd (handleListEmails p' args') =
           JObj [(''content'', JArr [JObj [(''type'', JStr ''text''), (''text'', JStr ''[]'')]])]"
proof -
  from assms(1) have "[listCall] = fst (handleListEvents p args)"
    by simp
  then have call: "listCall = (Calendar_events_list,
      JObj [(''calendarId'', JStr ''primary''),
            (''timeMin'', orElse (optProp args ''timeMin'') (JStr (now p))),
            (''timeMax'', optProp args ''timeMax''),
            (''maxResults'', orElse (optProp args ''maxResults'') (JNum 10)),
            (''singleEvents'', JBool True),
            (''orderBy'', JStr ''startTime'')])"
    by (simp only: handleListEvents_call list.inject)
  have events: "snd (handleListEvents p args) =
      JObj [(''content'', JArr [JObj [(''type'', JStr ''text''),
                                      (''text'', JSON_stringify JUndefined)]])]"
    using assms(2-4) unfolding call
    by (simp add: handleListEvents_def Let_def readProp_object nullish_def textResult_def)
  from assms(5) handleListEmails_first_call [of p' args']
  have call': "listCall' = (Gmail_messages_list,
      JObj [(''userId'', JStr ''me''),
            (''maxResults'', orElse (optProp args' ''maxResults'') (JNum 10)),
            (''q'', orElse (optProp args' ''query'') (JStr []))])"
    by simp
  have emails: "snd (handleListEmails p' args') =
      JObj [(''content'', JArr [JObj [(''type'', JStr ''text''), (''text'', JStr ''[]'')]])]"
    using assms(6-8) unfolding call'
    by (simp add: handleListEmails_def Let_def readProp_object orElse_def receiver_def
        enumerate_eq_zip Promise_all_def textResult_def JSON_stringify_def bracketed_def)
  have "JSON_stringify JUndefined = JUndefined"
    by (simp add: JSON_stringify_def)
  with events emails show ?thesis
    by simp
qed

text \<open>Both handlers without arguments, against the provider whose responses are
  \<open>{id: 'r1'}\<close>.\<close>

theorem list_events_without_items_witness:
  "snd (handleListEvents quietProvider JUndefined) =
     JObj [(''content'', JArr [JObj [(''type'', JStr ''text''), (''text'', JUndefined)]])] \<and>
   snd (handleListEmails quietProvider JUndefined) =
     JObj [(''content'', JArr [JObj [(''type'', JStr ''text''), (''text'', JStr ''[]'')]])]"
proof -
  let ?events = "(Calendar_events_list,
      JObj [(''calendarId'', JStr ''primary''), (''timeMin'', JStr ''2024-05-01T08:00:00.000Z''),
            (''timeMax'', JUndefined), (''maxResults'', JNum 10),
            (''singleEvents'', JBool True), (''orderBy'', JStr ''startTime'')])"
  let ?emails = "(Gmail_messages_list,
      JObj [(''userId'', JStr ''me''), (''maxResults'', JNum 10), (''q'', JStr [])])"
  let ?data = "JObj [(''id'', JStr ''r1'')]"
  have 1: "fst (handleListEvents quietProvider JUndefined) = [?events]"
    by (simp add: handleListEvents_def quietProvider_def orElse_def optProp_def nullish_def)
  have 2: "respond quietProvider 0 ?events = Inr ?data"
    by (simp add: quietProvider_def)
  have 3: "\<not> nullish ?data"
    by (simp add: nullish_def)
  have 4: "getProp ?data ''items'' = JUndefined"
    by simp
  have 5: "fst (handleListEmails quietProvider JUndefined) = ?emails # []"
    by (simp add: handleListEmails_def quietProvider_def orElse_def optProp_def nullish_def
        readProp_def receiver_def enumerate_eq_zip)
  have 6: "respond quietProvider 0 ?emails = Inr ?data"
    by (simp add: quietProvider_def)
  have 7: "getProp ?data ''messages'' = JUndefined"
    by simp
  from list_events_without_items [OF 1 2 3 4 5 6 3 7] show ?thesis
    by simp
qed

end
